theory Spec2Isabelle
  imports Main
begin

section \<open>Strings of the subdomain service\<close>

text \<open>
  The service of \<^verbatim>\<open>src/lib/subdomain.ts\<close> works on JavaScript strings, which are sequences
  of code units, and \<^verbatim>\<open>length\<close> counts code units. The model takes the code units below
  256 (ASCII and Latin-1) as \<^typ>\<open>char\<close>, so a string is a \<^typ>\<open>string\<close> and
  \<^verbatim>\<open>s.length\<close> is \<^term>\<open>length s\<close>. On these code units \<^verbatim>\<open>toLowerCase\<close> maps
  \<^verbatim>\<open>A-Z\<close> and the Latin-1 capitals \<^verbatim>\<open>U+00C0-U+00DE\<close> (without the sign \<^verbatim>\<open>U+00D7\<close>)
  to the code unit 32 above, and leaves every other code unit as it is.
\<close>

definition isUpper :: "char \<Rightarrow> bool" where
  "isUpper c =
     (let n = (of_char c :: nat)
      in (65 \<le> n \<and> n \<le> 90) \<or> (192 \<le> n \<and> n \<le> 222 \<and> n \<noteq> 215))"

definition lowerChar :: "char \<Rightarrow> char" where
  "lowerChar c = (if isUpper c then char_of ((of_char c :: nat) + 32) else c)"

definition toLowerCase :: "string \<Rightarrow> string" where
  "toLowerCase s = map lowerChar s"

text \<open>The character classes \<^verbatim>\<open>[a-z0-9]\<close> and \<^verbatim>\<open>[a-z0-9-]\<close> of the regular expressions.\<close>

definition alnum_class :: "char \<Rightarrow> bool" where
  "alnum_class c =
     (let n = (of_char c :: nat) in (97 \<le> n \<and> n \<le> 122) \<or> (48 \<le> n \<and> n \<le> 57))"

definition label_class :: "char \<Rightarrow> bool" where
  "label_class c = (alnum_class c \<or> c = CHR ''-'')"

text \<open>\<^verbatim>\<open>s.startsWith(p)\<close>, \<^verbatim>\<open>s.endsWith(p)\<close>, \<^verbatim>\<open>s.includes(p)\<close> and
  \<^verbatim>\<open>s.substring(a, b)\<close> on non-negative integer positions.\<close>

definition startsWith :: "string \<Rightarrow> string \<Rightarrow> bool" where
  "startsWith s p = (take (length p) s = p)"

definition endsWith :: "string \<Rightarrow> string \<Rightarrow> bool" where
  "endsWith s p = (length p \<le> length s \<and> drop (length s - length p) s = p)"

fun includes_str :: "string \<Rightarrow> string \<Rightarrow> bool" where
  "includes_str [] p = (p = [])"
| "includes_str (c # cs) p = (startsWith (c # cs) p \<or> includes_str cs p)"

definition substring :: "string \<Rightarrow> nat \<Rightarrow> nat \<Rightarrow> string" where
  "substring s a b =
     (let a' = min a (length s); b' = min b (length s);
          lo = min a' b'; hi = max a' b'
      in take (hi - lo) (drop lo s))"

text \<open>\<^verbatim>\<open>s.split(sep)\<close> for a separator of one code unit: the pieces between the
  occurrences of the separator, of which there is always at least one.\<close>

fun split :: "string \<Rightarrow> char \<Rightarrow> string list" where
  "split [] sep = [[]]"
| "split (c # cs) sep =
     (if c = sep then [] # split cs sep
      else (case split cs sep of
              [] \<Rightarrow> [[c]]
            | p # ps \<Rightarrow> (c # p) # ps))"

text \<open>The decimal rendering of an integer in a template literal, \<^verbatim>\<open>`${i}`\<close>.\<close>

function digits :: "nat \<Rightarrow> string" where
  "digits n =
     (if n < 10 then [''0123456789'' ! n]
      else digits (n div 10) @ [''0123456789'' ! (n mod 10)])"
  by pat_completeness auto
termination
  by (relation "measure id") auto

definition toString :: "int \<Rightarrow> string" where
  "toString i = (if i < 0 then CHR ''-'' # digits (nat (- i)) else digits (nat i))"

section \<open>The policy engine\<close>

subsection \<open>generateSubdomain\<close>

text \<open>\<^verbatim>\<open>.replace(/[^a-z0-9]/g, '-')\<close>: every code unit outside the class becomes a hyphen.\<close>

definition replace_non_alnum :: "string \<Rightarrow> string" where
  "replace_non_alnum s = map (\<lambda>c. if alnum_class c then c else CHR ''-'') s"

text \<open>\<^verbatim>\<open>.replace(/-+/g, '-')\<close>: scanning from the left, a match starts at a hyphen, takes
  every hyphen that follows it, and is replaced by one hyphen.\<close>

function replace_hyphen_runs :: "string \<Rightarrow> string" where
  "replace_hyphen_runs [] = []"
| "replace_hyphen_runs (c # cs) =
     (if c = CHR ''-'' then CHR ''-'' # replace_hyphen_runs (dropWhile (\<lambda>d. d = CHR ''-'') cs)
      else c # replace_hyphen_runs cs)"
  by pat_completeness auto
termination
  by (relation "measure length") (auto simp: le_imp_less_Suc length_dropWhile_le)

text \<open>\<^verbatim>\<open>.replace(/^-|-$/g, '')\<close>: without the multiline flag \<^verbatim>\<open>^\<close> matches at position 0
  only and \<^verbatim>\<open>$\<close> at the end only, so the matches are a hyphen at position 0 and, after
  it, a hyphen at the last position. Each is removed.\<close>

definition remove_edge_hyphens :: "string \<Rightarrow> string" where
  "remove_edge_hyphens s =
     (let s1 = (case s of [] \<Rightarrow> [] | c # cs \<Rightarrow> if c = CHR ''-'' then cs else s)
      in if s1 \<noteq> [] \<and> last s1 = CHR ''-'' then butlast s1 else s1)"

definition generateSubdomain :: "string \<Rightarrow> string" where
  "generateSubdomain companyName =
     substring
       (remove_edge_hyphens
          (replace_hyphen_runs
             (replace_non_alnum
                (toLowerCase companyName))))
       0 30"

subsection \<open>validateFormat\<close>

definition RESERVED_SUBDOMAINS :: "string list" where
  "RESERVED_SUBDOMAINS =
     [''www'', ''api'', ''admin'', ''app'', ''mail'', ''ftp'', ''blog'', ''shop'', ''store'',
      ''support'', ''help'', ''docs'', ''dev'', ''test'', ''staging'', ''prod'', ''production'',
      ''dashboard'', ''portal'', ''login'', ''register'', ''auth'', ''account'', ''profile'',
      ''settings'', ''config'', ''status'', ''health'', ''ping'', ''webhook'', ''callback'',
      ''assets'', ''static'', ''cdn'', ''media'', ''images'', ''files'', ''uploads'']"

record format_validation =
  isValid :: bool
  message :: string

text \<open>\<^verbatim>\<open>/^[a-z0-9-]+$/.test(s)\<close>: one code unit at least, and each in the class.\<close>

definition matches_label :: "string \<Rightarrow> bool" where
  "matches_label s = (s \<noteq> [] \<and> list_all label_class s)"

definition validateFormat :: "string \<Rightarrow> format_validation" where
  "validateFormat subdomain =
     (if length subdomain < 3 then
        \<lparr>isValid = False, message = ''Subdomain must be at least 3 characters long''\<rparr>
      else if length subdomain > 30 then
        \<lparr>isValid = False, message = ''Subdomain must be no more than 30 characters long''\<rparr>
      else if \<not> matches_label subdomain then
        \<lparr>isValid = False,
         message = ''Subdomain can only contain lowercase letters, numbers, and hyphens''\<rparr>
      else if startsWith subdomain ''-'' \<or> endsWith subdomain ''-'' then
        \<lparr>isValid = False, message = ''Subdomain cannot start or end with a hyphen''\<rparr>
      else if includes_str subdomain ''--'' then
        \<lparr>isValid = False, message = ''Subdomain cannot contain consecutive hyphens''\<rparr>
      else if subdomain \<in> set RESERVED_SUBDOMAINS then
        \<lparr>isValid = False, message = ''This subdomain is reserved and cannot be used''\<rparr>
      else
        \<lparr>isValid = True, message = ''Valid subdomain format''\<rparr>)"

section \<open>The availability resolver\<close>

subsection \<open>The store client\<close>

text \<open>
  The client of \<^verbatim>\<open>./supabase\<close> is not part of the service: what the awaited query
  \<^verbatim>\<open>supabase.from('companies').select('id').eq('subdomain', s).single()\<close> gives is taken
  as a parameter, a function of the queried name. The query either throws (the promise
  rejects) or resolves to a response \<^verbatim>\<open>{ data, error }\<close>, each of which may be null.
\<close>

datatype exn = Exn string

record company_row =
  row_id :: string

record postgrest_error =
  err_code :: string
  err_message :: string

record response =
  resp_data :: "company_row option"
  resp_error :: "postgrest_error option"

type_synonym store = "string \<Rightarrow> exn + response"

text \<open>The effects of the service: the queries it sends to the store, in order, and the
  errors it writes with \<^verbatim>\<open>console.error\<close>.\<close>

datatype logged = LoggedError postgrest_error | LoggedExn exn

record world =
  queries :: "string list"
  console :: "logged list"

definition single_query :: "store \<Rightarrow> string \<Rightarrow> world \<Rightarrow> (exn + response) \<times> world" where
  "single_query db subdomain w = (db subdomain, w\<lparr>queries := queries w @ [subdomain]\<rparr>)"

definition console_error :: "logged \<Rightarrow> world \<Rightarrow> world" where
  "console_error l w = w\<lparr>console := console w @ [l]\<rparr>"

subsection \<open>checkAvailability\<close>

text \<open>An asynchronous function either resolves to a value (\<open>Inr\<close>) or rejects with an
  exception (\<open>Inl\<close>). The body of the \<^verbatim>\<open>try\<close> block comes first, the \<^verbatim>\<open>catch\<close> around
  it second.\<close>

definition checkAvailability_try :: "store \<Rightarrow> string \<Rightarrow> world \<Rightarrow> (exn + bool) \<times> world" where
  "checkAvailability_try db subdomain w =
     (case single_query db subdomain w of
        (Inl e, w1) \<Rightarrow> (Inl e, w1)
      | (Inr r, w1) \<Rightarrow>
          (case resp_error r of
             Some err \<Rightarrow>
               if err_code err = ''PGRST116'' then (Inr True, w1)
               else (Inr False, console_error (LoggedError err) w1)
           | None \<Rightarrow> (Inr False, w1)))"

definition checkAvailability :: "store \<Rightarrow> string \<Rightarrow> world \<Rightarrow> (exn + bool) \<times> world" where
  "checkAvailability db subdomain w =
     (case checkAvailability_try db subdomain w of
        (Inl e, w1) \<Rightarrow> (Inr False, console_error (LoggedExn e) w1)
      | (Inr b, w1) \<Rightarrow> (Inr b, w1))"

subsection \<open>validateSubdomain\<close>

record subdomain_validation = format_validation +
  isAvailable :: bool

definition validateSubdomain ::
  "store \<Rightarrow> string \<Rightarrow> world \<Rightarrow> (exn + subdomain_validation) \<times> world" where
  "validateSubdomain db subdomain w =
     (let formatValidation = validateFormat subdomain
      in if \<not> isValid formatValidation then
           (Inr \<lparr>isValid = False, message = message formatValidation, isAvailable = False\<rparr>, w)
         else
           (case checkAvailability db subdomain w of
              (Inl e, w1) \<Rightarrow> (Inl e, w1)
            | (Inr available, w1) \<Rightarrow>
                (Inr \<lparr>isValid = True,
                      message = (if available then ''Subdomain is available''
                                 else ''Subdomain is already taken''),
                      isAvailable = available\<rparr>, w1)))"

subsection \<open>generateAlternatives\<close>

text \<open>The loop \<^verbatim>\<open>for (let i = 1; i <= count; i++)\<close> with its body; \<open>count\<close> and \<open>i\<close> are
  integers (the numbers on which \<^verbatim>\<open>i++\<close> is exact). An exception of the awaited
  \<^verbatim>\<open>validateSubdomain\<close> would leave the loop and reject the promise. A call without
  \<open>count\<close> is the call with \<open>count = 5\<close>.\<close>

definition alternative :: "string \<Rightarrow> int \<Rightarrow> string" where
  "alternative baseSubdomain i = baseSubdomain @ ''-'' @ toString i"

function generateAlternatives_loop ::
  "store \<Rightarrow> string \<Rightarrow> int \<Rightarrow> int \<Rightarrow> string list \<Rightarrow> world \<Rightarrow> (exn + string list) \<times> world" where
  "generateAlternatives_loop db baseSubdomain count i alternatives w =
     (if i \<le> count then
        (case validateSubdomain db (alternative baseSubdomain i) w of
           (Inl e, w1) \<Rightarrow> (Inl e, w1)
         | (Inr validation, w1) \<Rightarrow>
             generateAlternatives_loop db baseSubdomain count (i + 1)
               (if isValid validation \<and> isAvailable validation
                then alternatives @ [alternative baseSubdomain i] else alternatives)
               w1)
      else (Inr alternatives, w))"
  by pat_completeness auto
termination
  by (relation "measure (\<lambda>(db, b, count, i, alts, w). nat (count + 1 - i))") auto

declare generateAlternatives_loop.simps [simp del]

definition generateAlternatives ::
  "store \<Rightarrow> string \<Rightarrow> int \<Rightarrow> world \<Rightarrow> (exn + string list) \<times> world" where
  "generateAlternatives db baseSubdomain count w =
     generateAlternatives_loop db baseSubdomain count 1 [] w"

section \<open>Identity helpers\<close>

text \<open>\<^verbatim>\<open>getCurrentSubdomain\<close> reads the host name from \<^verbatim>\<open>window.location.hostname\<close>; the
  environment is the host name when there is a window, and nothing otherwise.\<close>

definition getCurrentSubdomain :: "string option \<Rightarrow> string option" where
  "getCurrentSubdomain window =
     (case window of
        None \<Rightarrow> None
      | Some hostname \<Rightarrow>
          (let parts = split hostname CHR ''.''
           in if hostname = ''localhost'' \<or> hostname = ''127.0.0.1'' then None
              else if length parts \<ge> 3 then Some (parts ! 0)
              else None))"

section \<open>The operations as the specification words them\<close>

subsection \<open>normalize\<close>

text \<open>The specification describes \<open>normalize\<close> as five steps. "Collapses consecutive
  hyphens into one": of two neighbouring hyphens the first is dropped.\<close>

fun collapse_hyphens :: "string \<Rightarrow> string" where
  "collapse_hyphens (c # d # cs) =
     (if c = CHR ''-'' \<and> d = CHR ''-'' then collapse_hyphens (d # cs)
      else c # collapse_hyphens (d # cs))"
| "collapse_hyphens cs = cs"

text \<open>"Strips leading/trailing hyphens": all of them, at both ends.\<close>

definition strip_hyphens :: "string \<Rightarrow> string" where
  "strip_hyphens s =
     rev (dropWhile (\<lambda>c. c = CHR ''-'') (rev (dropWhile (\<lambda>c. c = CHR ''-'') s)))"

text \<open>"Lowercases input, replaces every character outside \<^verbatim>\<open>[a-z0-9]\<close> with a hyphen,
  collapses, strips, truncates to 30 characters."\<close>

definition normalize_spec :: "string \<Rightarrow> string" where
  "normalize_spec displayName =
     take 30 (strip_hyphens (collapse_hyphens
       (map (\<lambda>c. if alnum_class c then c else CHR ''-'') (toLowerCase displayName))))"

text \<open>Two neighbouring hyphens somewhere in a string.\<close>

fun hyphen_pair :: "string \<Rightarrow> bool" where
  "hyphen_pair (c # d # cs) = ((c = CHR ''-'' \<and> d = CHR ''-'') \<or> hyphen_pair (d # cs))"
| "hyphen_pair cs = False"

subsection \<open>The rules of validateFormat\<close>

text \<open>The six rules in the order of the specification, each with its rejection message:
  too short, too long, fails the class \<^verbatim>\<open>[a-z0-9-]+\<close>, starts or ends with a hyphen,
  contains two hyphens in a row, is a reserved name. The first rule that an input
  violates decides.\<close>

definition format_rules :: "((string \<Rightarrow> bool) \<times> string) list" where
  "format_rules =
     [(\<lambda>s. length s < 3, ''Subdomain must be at least 3 characters long''),
      (\<lambda>s. length s > 30, ''Subdomain must be no more than 30 characters long''),
      (\<lambda>s. \<not> (s \<noteq> [] \<and> (\<forall>c \<in> set s. label_class c)),
       ''Subdomain can only contain lowercase letters, numbers, and hyphens''),
      (\<lambda>s. s \<noteq> [] \<and> (hd s = CHR ''-'' \<or> last s = CHR ''-''),
       ''Subdomain cannot start or end with a hyphen''),
      (\<lambda>s. hyphen_pair s, ''Subdomain cannot contain consecutive hyphens''),
      (\<lambda>s. s \<in> set RESERVED_SUBDOMAINS, ''This subdomain is reserved and cannot be used'')]"

definition first_violation :: "string \<Rightarrow> string option" where
  "first_violation s = map_option snd (find (\<lambda>rule. fst rule s) format_rules)"

subsection \<open>The answer of the store\<close>

text \<open>"Lookup yields no record": the service reads it from a response whose error has the
  code \<^verbatim>\<open>PGRST116\<close> (the comment of the source: no rows returned). A thrown exception,
  a response with data, and a response with any other error are not this signal.\<close>

definition no_rows_signal :: "exn + response \<Rightarrow> bool" where
  "no_rows_signal outcome =
     (case outcome of
        Inl e \<Rightarrow> False
      | Inr r \<Rightarrow> (case resp_error r of None \<Rightarrow> False | Some err \<Rightarrow> err_code err = ''PGRST116''))"

subsection \<open>extractSubdomainFromHost\<close>

text \<open>The number of dot-separated parts of a host name is one more than its number of
  dots, and its leftmost label is what stands before the first dot. The specification
  returns the leftmost label of a host name with three parts or more that is not a
  loopback alias.\<close>

definition parts_count :: "string \<Rightarrow> nat" where
  "parts_count hostname = Suc (length (filter (\<lambda>c. c = CHR ''.'') hostname))"

definition leftmost_label :: "string \<Rightarrow> string" where
  "leftmost_label hostname = takeWhile (\<lambda>c. c \<noteq> CHR ''.'') hostname"

definition extractSubdomainFromHost_spec :: "string \<Rightarrow> string option" where
  "extractSubdomainFromHost_spec hostname =
     (if 3 \<le> parts_count hostname \<and> hostname \<noteq> ''localhost'' \<and> hostname \<noteq> ''127.0.0.1''
      then Some (leftmost_label hostname) else None)"

section \<open>Worlds and stores for the examples\<close>

text \<open>The world before any effect; a store in which every name is free, one in which every
  name is taken.\<close>

definition world0 :: world where
  "world0 = \<lparr>queries = [], console = []\<rparr>"

definition free_store :: store where
  "free_store k =
     Inr \<lparr>resp_data = None,
          resp_error = Some \<lparr>err_code = ''PGRST116'',
                             err_message = ''JSON object requested, multiple (or no) rows returned''\<rparr>\<rparr>"

definition taken_store :: store where
  "taken_store k = Inr \<lparr>resp_data = Some \<lparr>row_id = ''42''\<rparr>, resp_error = None\<rparr>"

text \<open>A store in which \<^verbatim>\<open>acme-1\<close> and \<^verbatim>\<open>acme-3\<close> are taken and every other name is free.\<close>

definition acme_store :: store where
  "acme_store k =
     (if k = ''acme-1'' \<or> k = ''acme-3''
      then Inr \<lparr>resp_data = Some \<lparr>row_id = ''7''\<rparr>, resp_error = None\<rparr>
      else free_store k)"

section \<open>The candidates that generateAlternatives keeps\<close>

text \<open>A candidate passes the full \<open>validateSubdomain\<close> when the result is valid and
  available.\<close>

definition accepted :: "store \<Rightarrow> string \<Rightarrow> bool" where
  "accepted db candidate =
     (case fst (validateSubdomain db candidate world0) of
        Inl e \<Rightarrow> False
      | Inr v \<Rightarrow> isValid v \<and> isAvailable v)"

section \<open>Properties of the policy engine\<close>

subsection \<open>Output of generateSubdomain\<close>

lemma set_replace_hyphen_runs: "set (replace_hyphen_runs s) \<subseteq> set s"
proof (induction s rule: replace_hyphen_runs.induct)
  case 1
  then show ?case by simp
next
  case (2 c cs)
  have "set (dropWhile (\<lambda>d. d = CHR ''-'') cs) \<subseteq> set cs"
    by (rule set_dropWhileD[THEN subsetI])
  with 2 show ?case by auto
qed

lemma set_remove_edge_hyphens: "set (remove_edge_hyphens s) \<subseteq> set s"
  by (auto simp: remove_edge_hyphens_def Let_def split: list.splits if_splits
      dest: in_set_butlastD)

lemma substring_0: "substring s 0 n = take n s"
  by (simp add: substring_def Let_def min_def)

lemma label_class_replace: "c \<in> set (replace_non_alnum s) \<Longrightarrow> label_class c"
  by (auto simp: replace_non_alnum_def label_class_def)

text \<open>
  Claim C7. For every input string, the output of \<open>generateSubdomain\<close> has length at most
  30, and every character of the output is in the class \<^verbatim>\<open>[a-z0-9-]\<close>.
\<close>

theorem generateSubdomain_bounded_charset:
  "length (generateSubdomain s) \<le> 30 \<and> (\<forall>c \<in> set (generateSubdomain s). label_class c)"
proof
  show "length (generateSubdomain s) \<le> 30"
    by (simp add: generateSubdomain_def substring_0)
next
  show "\<forall>c \<in> set (generateSubdomain s). label_class c"
  proof
    fix c
    assume "c \<in> set (generateSubdomain s)"
    then have "c \<in> set (remove_edge_hyphens
                          (replace_hyphen_runs (replace_non_alnum (toLowerCase s))))"
      unfolding generateSubdomain_def substring_0 by (rule in_set_takeD)
    then have "c \<in> set (replace_non_alnum (toLowerCase s))"
      using set_remove_edge_hyphens set_replace_hyphen_runs by blast
    then show "label_class c"
      by (rule label_class_replace)
  qed
qed

theorem generateSubdomain_bounded_charset_witness:
  "generateSubdomain ''Uproom *** Labs'' = ''uproom-labs''
   \<and> length ''uproom-labs'' \<le> 30 \<and> list_all label_class ''uproom-labs''"
proof -
  have e: "generateSubdomain ''Uproom *** Labs'' = ''uproom-labs''"
    by code_simp
  from generateSubdomain_bounded_charset [of "''Uproom *** Labs''"] show ?thesis
    unfolding e list_all_iff by simp
qed

subsection \<open>generateSubdomain against the specification's normalize\<close>

lemma collapse_hyphens_other: "c \<noteq> CHR ''-'' \<Longrightarrow> collapse_hyphens (c # cs) = c # collapse_hyphens cs"
  by (cases cs) auto

lemma collapse_hyphens_hyphen:
  "collapse_hyphens (CHR ''-'' # cs) = CHR ''-'' # collapse_hyphens (dropWhile (\<lambda>d. d = CHR ''-'') cs)"
proof (induction cs)
  case Nil
  then show ?case by simp
next
  case (Cons d ds)
  then show ?case by (cases "d = CHR ''-''") (simp_all add: collapse_hyphens_other)
qed

lemma replace_hyphen_runs_collapse: "replace_hyphen_runs s = collapse_hyphens s"
  by (induction s rule: replace_hyphen_runs.induct)
     (simp_all add: collapse_hyphens_other collapse_hyphens_hyphen)

lemma hyphen_pair_collapse: "\<not> hyphen_pair (collapse_hyphens s)"
proof (induction s rule: collapse_hyphens.induct)
  case (1 c d cs)
  then show ?case
    by (cases "collapse_hyphens (d # cs)") (auto split: if_splits simp: collapse_hyphens_other collapse_hyphens_hyphen)
qed simp_all

lemma hyphen_pair_Cons:
  "hyphen_pair (c # cs) \<longleftrightarrow>
     (cs \<noteq> [] \<and> c = CHR ''-'' \<and> hd cs = CHR ''-'') \<or> hyphen_pair cs"
  by (cases cs) auto

lemma hyphen_pair_append:
  "hyphen_pair (xs @ ys) \<longleftrightarrow>
     hyphen_pair xs \<or> hyphen_pair ys \<or>
     (xs \<noteq> [] \<and> ys \<noteq> [] \<and> last xs = CHR ''-'' \<and> hd ys = CHR ''-'')"
proof (induction xs)
  case Nil
  then show ?case by simp
next
  case (Cons x xs)
  then show ?case
    by (cases xs) (auto simp: hyphen_pair_Cons simp del: hyphen_pair.simps)
qed

lemma hyphen_pair_rev: "hyphen_pair (rev s) = hyphen_pair s"
proof (induction s)
  case Nil
  then show ?case by simp
next
  case (Cons c cs)
  then show ?case
    by (cases cs) (auto simp: hyphen_pair_append hd_rev last_rev)
qed

lemma dropWhile_one:
  "\<not> hyphen_pair s \<Longrightarrow>
   dropWhile (\<lambda>c. c = CHR ''-'') s = (case s of [] \<Rightarrow> [] | c # cs \<Rightarrow> if c = CHR ''-'' then cs else s)"
  by (cases s rule: hyphen_pair.cases) auto

lemma hyphen_pair_tl: "\<not> hyphen_pair (c # cs) \<Longrightarrow> \<not> hyphen_pair cs"
  by (cases cs) auto

lemma remove_edge_hyphens_strip:
  assumes "\<not> hyphen_pair s"
  shows "remove_edge_hyphens s = strip_hyphens s"
proof -
  define s1 where "s1 = (case s of [] \<Rightarrow> [] | c # cs \<Rightarrow> if c = CHR ''-'' then cs else s)"
  have d1: "dropWhile (\<lambda>c. c = CHR ''-'') s = s1"
    using assms by (simp add: dropWhile_one s1_def)
  have np: "\<not> hyphen_pair s1"
    using assms by (auto simp: s1_def split: list.splits dest: hyphen_pair_tl)
  then have "\<not> hyphen_pair (rev s1)" by (simp add: hyphen_pair_rev)
  then have d2: "dropWhile (\<lambda>c. c = CHR ''-'') (rev s1) =
                   (case rev s1 of [] \<Rightarrow> [] | c # cs \<Rightarrow> if c = CHR ''-'' then cs else rev s1)"
    by (rule dropWhile_one)
  have "rev (dropWhile (\<lambda>c. c = CHR ''-'') (rev s1)) =
          (if s1 \<noteq> [] \<and> last s1 = CHR ''-'' then butlast s1 else s1)"
  proof (cases s1 rule: rev_cases)
    case Nil
    then show ?thesis by simp
  next
    case (snoc ys y)
    then show ?thesis unfolding d2 by simp
  qed
  then show ?thesis
    by (simp add: remove_edge_hyphens_def strip_hyphens_def d1 s1_def[symmetric] Let_def)
qed

text \<open>
  Claim C6. For every input string, \<open>generateSubdomain\<close> equals the composition of the
  specification: lowercase, replace every character outside \<^verbatim>\<open>[a-z0-9]\<close> with a hyphen,
  collapse runs of hyphens to one hyphen, strip leading and trailing hyphens, truncate to
  the first 30 characters. In particular \<^verbatim>\<open>"Acme Corp!!"\<close> gives \<^verbatim>\<open>"acme-corp"\<close>.
\<close>

theorem generateSubdomain_refines_normalize:
  "generateSubdomain s = normalize_spec s \<and> generateSubdomain ''Acme Corp!!'' = ''acme-corp''"
proof
  show "generateSubdomain s = normalize_spec s"
    by (simp add: generateSubdomain_def normalize_spec_def substring_0 replace_non_alnum_def
        replace_hyphen_runs_collapse remove_edge_hyphens_strip hyphen_pair_collapse)
next
  show "generateSubdomain ''Acme Corp!!'' = ''acme-corp''"
    by code_simp
qed

subsection \<open>Precedence of the rules of validateFormat\<close>

lemma startsWith_hyphen: "startsWith s ''-'' \<longleftrightarrow> s \<noteq> [] \<and> hd s = CHR ''-''"
  by (cases s) (auto simp: startsWith_def)

lemma endsWith_hyphen: "endsWith s ''-'' \<longleftrightarrow> s \<noteq> [] \<and> last s = CHR ''-''"
proof (cases s rule: rev_cases)
  case Nil
  then show ?thesis by (simp add: endsWith_def)
next
  case (snoc ys y)
  then show ?thesis by (auto simp: endsWith_def)
qed

lemma includes_str_hyphens: "includes_str s ''--'' = hyphen_pair s"
proof (induction s rule: hyphen_pair.induct)
  case (1 c d cs)
  then show ?case by (auto simp: startsWith_def)
qed (simp_all add: startsWith_def)

lemma matches_label_iff: "matches_label s \<longleftrightarrow> s \<noteq> [] \<and> (\<forall>c \<in> set s. label_class c)"
  by (simp add: matches_label_def list_all_iff)

lemma validateFormat_first_violation:
  "validateFormat s =
     (case first_violation s of
        Some m \<Rightarrow> \<lparr>isValid = False, message = m\<rparr>
      | None \<Rightarrow> \<lparr>isValid = True, message = ''Valid subdomain format''\<rparr>)"
  unfolding validateFormat_def first_violation_def format_rules_def
    startsWith_hyphen endsWith_hyphen includes_str_hyphens matches_label_iff
  by simp

text \<open>
  Claim C2. \<open>validateFormat\<close> evaluates its six rules in the fixed order (1) length below
  3, (2) length above 30, (3) class \<^verbatim>\<open>[a-z0-9-]+\<close>, (4) starts or ends with a hyphen,
  (5) contains two hyphens in a row, (6) reserved, and returns the rejection message of
  the first rule violated in that order. In particular every string of length 0 to 2 is
  rejected as too short whatever it contains, and \<^verbatim>\<open>"ab--cd"\<close> is rejected with the
  consecutive-hyphen message.
\<close>

theorem validateFormat_precedence:
  "validateFormat s =
     (case first_violation s of
        Some m \<Rightarrow> \<lparr>isValid = False, message = m\<rparr>
      | None \<Rightarrow> \<lparr>isValid = True, message = ''Valid subdomain format''\<rparr>)
   \<and> (length s \<le> 2 \<longrightarrow>
        validateFormat s =
          \<lparr>isValid = False, message = ''Subdomain must be at least 3 characters long''\<rparr>)
   \<and> validateFormat ''ab--cd'' =
        \<lparr>isValid = False, message = ''Subdomain cannot contain consecutive hyphens''\<rparr>"
proof (intro conjI impI)
  show "validateFormat s =
     (case first_violation s of
        Some m \<Rightarrow> \<lparr>isValid = False, message = m\<rparr>
      | None \<Rightarrow> \<lparr>isValid = True, message = ''Valid subdomain format''\<rparr>)"
    by (rule validateFormat_first_violation)
next
  assume "length s \<le> 2"
  then show "validateFormat s =
          \<lparr>isValid = False, message = ''Subdomain must be at least 3 characters long''\<rparr>"
    by (simp add: validateFormat_def)
next
  show "validateFormat ''ab--cd'' =
        \<lparr>isValid = False, message = ''Subdomain cannot contain consecutive hyphens''\<rparr>"
    by code_simp
qed

theorem validateFormat_precedence_witness:
  "length ''-A'' \<le> 2
   \<and> first_violation ''-A'' = Some ''Subdomain must be at least 3 characters long''
   \<and> validateFormat ''-A'' =
        \<lparr>isValid = False, message = ''Subdomain must be at least 3 characters long''\<rparr>
   \<and> first_violation ''-Ab--'' =
        Some ''Subdomain can only contain lowercase letters, numbers, and hyphens''
   \<and> validateFormat ''-Ab--'' =
        \<lparr>isValid = False,
         message = ''Subdomain can only contain lowercase letters, numbers, and hyphens''\<rparr>"
proof -
  have l: "length ''-A'' \<le> 2" by simp
  have f1: "first_violation ''-A'' = Some ''Subdomain must be at least 3 characters long''"
    by code_simp
  have f2: "first_violation ''-Ab--'' =
        Some ''Subdomain can only contain lowercase letters, numbers, and hyphens''"
    by code_simp
  from validateFormat_precedence [of "''-A''"] validateFormat_precedence [of "''-Ab--''"]
  show ?thesis unfolding f1 f2 using l by simp
qed

subsection \<open>A normalized name that is not valid\<close>

text \<open>
  Claim C9. For some input the output of \<open>generateSubdomain\<close> ends with a hyphen: the
  truncation to 30 characters comes after the hyphens at the ends are removed, so 29
  letters \<^verbatim>\<open>a\<close> followed by \<^verbatim>\<open>!b\<close> give a string of 30 characters whose last one is a
  hyphen, which \<open>validateFormat\<close> rejects under the rule on leading and trailing hyphens.
\<close>

theorem generateSubdomain_trailing_hyphen:
  "generateSubdomain (replicate 29 CHR ''a'' @ ''!b'') = replicate 29 CHR ''a'' @ ''-''
   \<and> length (generateSubdomain (replicate 29 CHR ''a'' @ ''!b'')) = 30
   \<and> last (generateSubdomain (replicate 29 CHR ''a'' @ ''!b'')) = CHR ''-''
   \<and> validateFormat (generateSubdomain (replicate 29 CHR ''a'' @ ''!b'')) =
        \<lparr>isValid = False, message = ''Subdomain cannot start or end with a hyphen''\<rparr>"
  by code_simp

section \<open>Properties of the availability resolver\<close>

subsection \<open>checkAvailability fails closed\<close>

lemma checkAvailability_result:
  "fst (checkAvailability db s w) = Inr (no_rows_signal (db s))"
  by (simp add: checkAvailability_def checkAvailability_try_def single_query_def
      no_rows_signal_def split: sum.splits option.splits)

lemma checkAvailability_queries:
  "queries (snd (checkAvailability db s w)) = queries w @ [s]"
  by (simp add: checkAvailability_def checkAvailability_try_def single_query_def
      console_error_def split: sum.splits option.splits)

lemma checkAvailability_eq:
  "checkAvailability db s w = (Inr (no_rows_signal (db s)), snd (checkAvailability db s w))"
  using checkAvailability_result [of db s w] by (cases "checkAvailability db s w") simp

text \<open>
  Claim C3. For every input, \<open>checkAvailability\<close> resolves to a boolean and never rejects
  with the fault of the store: when the lookup throws, or answers with an error other than
  the no-rows signal, the result is false, and the result is true exactly when the lookup
  answers with the no-rows signal.
\<close>

theorem checkAvailability_fail_closed:
  "fst (checkAvailability db s w) = Inr (no_rows_signal (db s))
   \<and> (\<forall>e. db s = Inl e \<longrightarrow> fst (checkAvailability db s w) = Inr False)
   \<and> (\<forall>r err. db s = Inr r \<and> resp_error r = Some err \<and> err_code err \<noteq> ''PGRST116''
        \<longrightarrow> fst (checkAvailability db s w) = Inr False)
   \<and> (fst (checkAvailability db s w) = Inr True
        \<longleftrightarrow> (\<exists>r err. db s = Inr r \<and> resp_error r = Some err \<and> err_code err = ''PGRST116''))"
  unfolding checkAvailability_result
  by (auto simp: no_rows_signal_def split: sum.splits option.splits)

theorem checkAvailability_fail_closed_witness:
  "fst (checkAvailability (\<lambda>k. Inl (Exn ''fetch failed'')) ''acme'' world0) = Inr False
   \<and> fst (checkAvailability
            (\<lambda>k. Inr \<lparr>resp_data = None,
                       resp_error = Some \<lparr>err_code = ''57014'', err_message = ''timeout''\<rparr>\<rparr>)
            ''acme'' world0) = Inr False
   \<and> fst (checkAvailability
            (\<lambda>k. Inr \<lparr>resp_data = None,
                       resp_error = Some \<lparr>err_code = ''PGRST116'', err_message = ''no rows''\<rparr>\<rparr>)
            ''acme'' world0) = Inr True"
proof (intro conjI)
  show "fst (checkAvailability (\<lambda>k. Inl (Exn ''fetch failed'')) ''acme'' world0) = Inr False"
    using checkAvailability_fail_closed
      [of "\<lambda>k. Inl (Exn ''fetch failed'')" "''acme''" world0]
    by (simp add: no_rows_signal_def)
  show "fst (checkAvailability
            (\<lambda>k. Inr \<lparr>resp_data = None,
                       resp_error = Some \<lparr>err_code = ''57014'', err_message = ''timeout''\<rparr>\<rparr>)
            ''acme'' world0) = Inr False"
    using checkAvailability_fail_closed
      [of "\<lambda>k. Inr \<lparr>resp_data = None,
                       resp_error = Some \<lparr>err_code = ''57014'', err_message = ''timeout''\<rparr>\<rparr>"
          "''acme''" world0]
    by (simp add: no_rows_signal_def)
  show "fst (checkAvailability
            (\<lambda>k. Inr \<lparr>resp_data = None,
                       resp_error = Some \<lparr>err_code = ''PGRST116'', err_message = ''no rows''\<rparr>\<rparr>)
            ''acme'' world0) = Inr True"
    using checkAvailability_fail_closed
      [of "\<lambda>k. Inr \<lparr>resp_data = None,
                       resp_error = Some \<lparr>err_code = ''PGRST116'', err_message = ''no rows''\<rparr>\<rparr>"
          "''acme''" world0]
    by (simp add: no_rows_signal_def)
qed

subsection \<open>validateSubdomain\<close>

lemma validateSubdomain_eq:
  "validateSubdomain db s w =
     (if \<not> isValid (validateFormat s) then
        (Inr \<lparr>isValid = False, message = message (validateFormat s), isAvailable = False\<rparr>, w)
      else
        (Inr \<lparr>isValid = True,
              message = (if no_rows_signal (db s) then ''Subdomain is available''
                         else ''Subdomain is already taken''),
              isAvailable = no_rows_signal (db s)\<rparr>,
         snd (checkAvailability db s w)))"
  by (subst validateSubdomain_def, subst checkAvailability_eq) (simp add: Let_def)

text \<open>
  Claim C5. For every input that fails \<open>validateFormat\<close>, \<open>validateSubdomain\<close> returns
  invalid and unavailable with the message of the format failure, and sends no query to the
  store (the world is unchanged). For every input that passes \<open>validateFormat\<close>, it calls
  \<open>checkAvailability\<close> once (one query, for this name) and returns valid, with the
  availability that the call gave and the message \<^verbatim>\<open>Subdomain is available\<close> or
  \<^verbatim>\<open>Subdomain is already taken\<close>.
\<close>

theorem validateSubdomain_short_circuit:
  "(\<not> isValid (validateFormat s) \<longrightarrow>
      validateSubdomain db s w =
        (Inr \<lparr>isValid = False, message = message (validateFormat s), isAvailable = False\<rparr>, w))
   \<and> (isValid (validateFormat s) \<longrightarrow>
        (\<exists>available w1.
           checkAvailability db s w = (Inr available, w1)
           \<and> validateSubdomain db s w =
               (Inr \<lparr>isValid = True,
                     message = (if available then ''Subdomain is available''
                                else ''Subdomain is already taken''),
                     isAvailable = available\<rparr>, w1)
           \<and> queries w1 = queries w @ [s]))"
proof (intro conjI impI)
  assume "\<not> isValid (validateFormat s)"
  then show "validateSubdomain db s w =
        (Inr \<lparr>isValid = False, message = message (validateFormat s), isAvailable = False\<rparr>, w)"
    by (simp add: validateSubdomain_def Let_def)
next
  assume v: "isValid (validateFormat s)"
  define available where "available = no_rows_signal (db s)"
  define w1 where "w1 = snd (checkAvailability db s w)"
  have c: "checkAvailability db s w = (Inr available, w1)"
    unfolding available_def w1_def by (rule checkAvailability_eq)
  have "validateSubdomain db s w =
               (Inr \<lparr>isValid = True,
                     message = (if available then ''Subdomain is available''
                                else ''Subdomain is already taken''),
                     isAvailable = available\<rparr>, w1)"
    using v by (simp add: validateSubdomain_def Let_def c)
  moreover have "queries w1 = queries w @ [s]"
    unfolding w1_def by (rule checkAvailability_queries)
  ultimately show "\<exists>available w1.
           checkAvailability db s w = (Inr available, w1)
           \<and> validateSubdomain db s w =
               (Inr \<lparr>isValid = True,
                     message = (if available then ''Subdomain is available''
                                else ''Subdomain is already taken''),
                     isAvailable = available\<rparr>, w1)
           \<and> queries w1 = queries w @ [s]"
    using c by blast
qed

theorem validateSubdomain_short_circuit_witness:
  "\<not> isValid (validateFormat ''Acme'')
   \<and> validateSubdomain taken_store ''Acme'' world0 =
       (Inr \<lparr>isValid = False,
             message = ''Subdomain can only contain lowercase letters, numbers, and hyphens'',
             isAvailable = False\<rparr>, world0)
   \<and> isValid (validateFormat ''acme'')
   \<and> validateSubdomain taken_store ''acme'' world0 =
       (Inr \<lparr>isValid = True, message = ''Subdomain is already taken'', isAvailable = False\<rparr>,
        \<lparr>queries = [''acme''], console = []\<rparr>)"
proof -
  have v1: "validateFormat ''Acme'' =
      \<lparr>isValid = False,
       message = ''Subdomain can only contain lowercase letters, numbers, and hyphens''\<rparr>"
    by code_simp
  have v2: "validateFormat ''acme'' = \<lparr>isValid = True, message = ''Valid subdomain format''\<rparr>"
    by code_simp
  have c: "checkAvailability taken_store ''acme'' world0 =
      (Inr False, \<lparr>queries = [''acme''], console = []\<rparr>)"
    by (simp add: checkAvailability_def checkAvailability_try_def single_query_def
        taken_store_def world0_def)
  from validateSubdomain_short_circuit [of "''Acme''" taken_store world0]
    validateSubdomain_short_circuit [of "''acme''" taken_store world0]
  show ?thesis
    by (auto simp: v1 v2 c)
qed

lemma hyphen_pair_nth:
  "hyphen_pair s \<longleftrightarrow> (\<exists>i. Suc i < length s \<and> s ! i = CHR ''-'' \<and> s ! Suc i = CHR ''-'')"
proof (induction s rule: hyphen_pair.induct)
  case (1 c d cs)
  have "(\<exists>i. Suc i < length (c # d # cs) \<and> (c # d # cs) ! i = CHR ''-'' \<and> (c # d # cs) ! Suc i = CHR ''-'')
        \<longleftrightarrow> (c = CHR ''-'' \<and> d = CHR ''-'')
            \<or> (\<exists>j. Suc j < length (d # cs) \<and> (d # cs) ! j = CHR ''-'' \<and> (d # cs) ! Suc j = CHR ''-'')"
    (is "?L \<longleftrightarrow> ?A \<or> ?R")
  proof
    assume ?L
    then obtain i where i: "Suc i < length (c # d # cs)" "(c # d # cs) ! i = CHR ''-''"
      "(c # d # cs) ! Suc i = CHR ''-''" by blast
    show "?A \<or> ?R"
    proof (cases i)
      case 0
      with i show ?thesis by simp
    next
      case (Suc j)
      with i have "Suc j < length (d # cs) \<and> (d # cs) ! j = CHR ''-'' \<and> (d # cs) ! Suc j = CHR ''-''"
        by simp
      then show ?thesis by blast
    qed
  next
    assume "?A \<or> ?R"
    then show ?L
    proof
      assume ?A
      then have "Suc 0 < length (c # d # cs) \<and> (c # d # cs) ! 0 = CHR ''-'' \<and> (c # d # cs) ! Suc 0 = CHR ''-''"
        by simp
      then show ?L by blast
    next
      assume ?R
      then obtain j where "Suc j < length (d # cs)" "(d # cs) ! j = CHR ''-''" "(d # cs) ! Suc j = CHR ''-''"
        by blast
      then have "Suc (Suc j) < length (c # d # cs) \<and> (c # d # cs) ! Suc j = CHR ''-'' \<and> (c # d # cs) ! Suc (Suc j) = CHR ''-''"
        by simp
      then show ?L by blast
    qed
  qed
  with 1 show ?case by simp
qed simp_all

lemma validateFormat_valid_iff:
  "isValid (validateFormat s) \<longleftrightarrow>
     3 \<le> length s \<and> length s \<le> 30 \<and> (\<forall>c \<in> set s. label_class c)
     \<and> hd s \<noteq> CHR ''-'' \<and> last s \<noteq> CHR ''-'' \<and> \<not> hyphen_pair s
     \<and> s \<notin> set RESERVED_SUBDOMAINS"
  unfolding validateFormat_def startsWith_hyphen endsWith_hyphen includes_str_hyphens
    matches_label_iff
  by auto

text \<open>
  Claim C1. For every input, if \<open>validateSubdomain\<close> returns a result that is valid and
  available, the input satisfies the format rules (length 3 to 30, every character in
  \<^verbatim>\<open>[a-z0-9-]\<close>, no hyphen first or last, no two hyphens in a row), is not reserved, and
  the lookup of the store for it did not fail and answered with the no-rows signal.
\<close>

theorem validateSubdomain_accepted_sound:
  assumes "validateSubdomain db s w = (Inr v, w')" and "isValid v" and "isAvailable v"
  shows "3 \<le> length s \<and> length s \<le> 30
         \<and> (\<forall>c \<in> set s. label_class c)
         \<and> hd s \<noteq> CHR ''-'' \<and> last s \<noteq> CHR ''-''
         \<and> (\<forall>i. Suc i < length s \<longrightarrow> \<not> (s ! i = CHR ''-'' \<and> s ! Suc i = CHR ''-''))
         \<and> s \<notin> set RESERVED_SUBDOMAINS
         \<and> (\<exists>r err. db s = Inr r \<and> resp_error r = Some err \<and> err_code err = ''PGRST116'')
         \<and> queries w' = queries w @ [s]"
proof -
  note e = validateSubdomain_eq [of db s w]
  have fmt: "isValid (validateFormat s)"
    using assms(1,2) unfolding e by (auto split: if_splits)
  have "isAvailable v = no_rows_signal (db s)" and w': "w' = snd (checkAvailability db s w)"
    using assms(1) fmt unfolding e by auto
  with assms(3) have "no_rows_signal (db s)" by simp
  then have nr: "\<exists>r err. db s = Inr r \<and> resp_error r = Some err \<and> err_code err = ''PGRST116''"
    by (auto simp: no_rows_signal_def split: sum.splits option.splits)
  have q: "queries w' = queries w @ [s]"
    unfolding w' by (rule checkAvailability_queries)
  from fmt have "3 \<le> length s \<and> length s \<le> 30 \<and> (\<forall>c \<in> set s. label_class c)
     \<and> hd s \<noteq> CHR ''-'' \<and> last s \<noteq> CHR ''-'' \<and> \<not> hyphen_pair s
     \<and> s \<notin> set RESERVED_SUBDOMAINS"
    using validateFormat_valid_iff [of s] by blast
  with nr q show ?thesis
    unfolding hyphen_pair_nth by blast
qed

theorem validateSubdomain_accepted_sound_witness:
  "validateSubdomain free_store ''acme'' world0 =
     (Inr \<lparr>isValid = True, message = ''Subdomain is available'', isAvailable = True\<rparr>,
      \<lparr>queries = [''acme''], console = []\<rparr>)
   \<and> 3 \<le> length ''acme'' \<and> length ''acme'' \<le> 30
   \<and> list_all label_class ''acme''
   \<and> hd ''acme'' \<noteq> CHR ''-'' \<and> last ''acme'' \<noteq> CHR ''-''
   \<and> ''acme'' \<notin> set RESERVED_SUBDOMAINS
   \<and> (\<exists>r err. free_store ''acme'' = Inr r \<and> resp_error r = Some err
                \<and> err_code err = ''PGRST116'')"
proof -
  have v: "validateFormat ''acme'' = \<lparr>isValid = True, message = ''Valid subdomain format''\<rparr>"
    by code_simp
  have e: "validateSubdomain free_store ''acme'' world0 =
     (Inr \<lparr>isValid = True, message = ''Subdomain is available'', isAvailable = True\<rparr>,
      \<lparr>queries = [''acme''], console = []\<rparr>)"
    by (simp add: validateSubdomain_def v checkAvailability_def checkAvailability_try_def
        single_query_def free_store_def world0_def)
  from validateSubdomain_accepted_sound [OF e] e show ?thesis
    by (simp add: list_all_iff)
qed

section \<open>Properties of the identity helpers\<close>

lemma split_not_Nil: "split s sep \<noteq> []"
  by (induction s) (auto split: list.splits)

lemma length_split: "length (split s sep) = Suc (length (filter (\<lambda>c. c = sep) s))"
  by (induction s) (auto split: list.splits simp: split_not_Nil)

lemma hd_split: "hd (split s sep) = takeWhile (\<lambda>c. c \<noteq> sep) s"
  by (induction s) (auto split: list.splits simp: split_not_Nil)

lemma split_nth_0: "split s sep ! 0 = takeWhile (\<lambda>c. c \<noteq> sep) s"
  using hd_split [of s sep] split_not_Nil [of s sep] by (simp add: hd_conv_nth)

text \<open>
  Claim C8. For every host name, \<open>getCurrentSubdomain\<close> returns the leftmost dot-separated
  label when the host name has at least three dot-separated parts and is neither
  \<^verbatim>\<open>localhost\<close> nor \<^verbatim>\<open>127.0.0.1\<close>, and nothing otherwise. In particular
  \<^verbatim>\<open>tenant.uproom.com\<close> gives \<^verbatim>\<open>tenant\<close>, \<^verbatim>\<open>localhost\<close> gives nothing and \<^verbatim>\<open>uproom.com\<close>
  gives nothing.
\<close>

theorem getCurrentSubdomain_leftmost_label:
  "getCurrentSubdomain (Some hostname) = extractSubdomainFromHost_spec hostname
   \<and> getCurrentSubdomain (Some ''tenant.uproom.com'') = Some ''tenant''
   \<and> getCurrentSubdomain (Some ''localhost'') = None
   \<and> getCurrentSubdomain (Some ''uproom.com'') = None"
proof (intro conjI)
  show "getCurrentSubdomain (Some hostname) = extractSubdomainFromHost_spec hostname"
    by (simp add: getCurrentSubdomain_def extractSubdomainFromHost_spec_def Let_def
        length_split split_nth_0 parts_count_def leftmost_label_def)
  show "getCurrentSubdomain (Some ''tenant.uproom.com'') = Some ''tenant''"
    by code_simp
  show "getCurrentSubdomain (Some ''localhost'') = None"
    by code_simp
  show "getCurrentSubdomain (Some ''uproom.com'') = None"
    by code_simp
qed

section \<open>Properties of generateAlternatives\<close>

lemma accepted_iff: "accepted db c \<longleftrightarrow> isValid (validateFormat c) \<and> no_rows_signal (db c)"
  by (simp add: accepted_def validateSubdomain_eq)

lemma validateSubdomain_queries:
  "queries (snd (validateSubdomain db c w)) =
     queries w @ (if isValid (validateFormat c) then [c] else [])"
  by (simp add: validateSubdomain_eq checkAvailability_queries)

lemma generateAlternatives_loop_step:
  "i \<le> count \<Longrightarrow>
   generateAlternatives_loop db b count i acc w =
     generateAlternatives_loop db b count (i + 1)
       (if accepted db (alternative b i) then acc @ [alternative b i] else acc)
       (snd (validateSubdomain db (alternative b i) w))"
  by (subst generateAlternatives_loop.simps)
     (simp add: validateSubdomain_eq accepted_iff)

lemma generateAlternatives_loop_exit:
  "\<not> i \<le> count \<Longrightarrow> generateAlternatives_loop db b count i acc w = (Inr acc, w)"
  by (subst generateAlternatives_loop.simps) simp

lemma generateAlternatives_loop_result:
  "fst (generateAlternatives_loop db b count i acc w) =
     Inr (acc @ filter (accepted db) (map (alternative b) [i..count]))
   \<and> queries (snd (generateAlternatives_loop db b count i acc w)) =
       queries w @ filter (\<lambda>c. isValid (validateFormat c)) (map (alternative b) [i..count])"
proof (induction "nat (count + 1 - i)" arbitrary: i acc w)
  case 0
  then have "\<not> i \<le> count" by simp
  then show ?case by (simp add: generateAlternatives_loop_exit)
next
  case (Suc n)
  then have le: "i \<le> count" by simp
  from Suc have "n = nat (count + 1 - (i + 1))" by simp
  note IH = Suc.hyps(1) [OF this,
      of "if accepted db (alternative b i) then acc @ [alternative b i] else acc"
         "snd (validateSubdomain db (alternative b i) w)"]
  have u: "[i..count] = i # [i + 1..count]"
    using le by (rule upto_rec1)
  show ?case
    unfolding generateAlternatives_loop_step [OF le] u
    using IH by (simp add: validateSubdomain_queries)
qed

text \<open>
  Claim C4. \<open>generateAlternatives\<close> returns exactly the candidates \<^verbatim>\<open>base-1\<close>, \<^verbatim>\<open>base-2\<close>, ...,
  \<^verbatim>\<open>base-count\<close> that pass the full \<open>validateSubdomain\<close>, in ascending order of the
  suffix; it checks no candidate beyond these (its queries to the store are the candidates
  of valid format, in order, so at most \<open>count\<close>); when no candidate is free it returns the
  empty sequence and not an error. With base \<^verbatim>\<open>acme\<close> and count 5, against a store where
  \<^verbatim>\<open>acme-1\<close> and \<^verbatim>\<open>acme-3\<close> are taken and the others are free, it returns \<^verbatim>\<open>acme-2\<close>,
  \<^verbatim>\<open>acme-4\<close>, \<^verbatim>\<open>acme-5\<close>.
\<close>

theorem generateAlternatives_filters_candidates:
  "fst (generateAlternatives db b count w) =
     Inr (filter (accepted db) (map (alternative b) [1..count]))
   \<and> queries (snd (generateAlternatives db b count w)) =
       queries w @ filter (\<lambda>c. isValid (validateFormat c)) (map (alternative b) [1..count])
   \<and> length (queries (snd (generateAlternatives db b count w)))
       \<le> length (queries w) + nat count
   \<and> ((\<forall>i \<in> {1..count}. \<not> no_rows_signal (db (alternative b i)))
        \<longrightarrow> fst (generateAlternatives db b count w) = Inr [])
   \<and> fst (generateAlternatives acme_store ''acme'' 5 world0) =
       Inr [''acme-2'', ''acme-4'', ''acme-5'']"
proof (intro conjI impI)
  note r = generateAlternatives_loop_result [of db b count 1 "[]" w]
  show f: "fst (generateAlternatives db b count w) =
     Inr (filter (accepted db) (map (alternative b) [1..count]))"
    using r by (simp add: generateAlternatives_def)
  show q: "queries (snd (generateAlternatives db b count w)) =
       queries w @ filter (\<lambda>c. isValid (validateFormat c)) (map (alternative b) [1..count])"
    using r by (simp add: generateAlternatives_def)
  have "length (filter (\<lambda>c. isValid (validateFormat c)) (map (alternative b) [1..count]))
          \<le> length (map (alternative b) [1..count])"
    by (rule length_filter_le)
  also have "\<dots> = nat count" by simp
  finally show "length (queries (snd (generateAlternatives db b count w)))
       \<le> length (queries w) + nat count"
    unfolding q by simp
  show "fst (generateAlternatives db b count w) = Inr []"
    if "\<forall>i \<in> {1..count}. \<not> no_rows_signal (db (alternative b i))"
  proof -
    from that have "filter (accepted db) (map (alternative b) [1..count]) = []"
      by (auto simp: filter_empty_conv accepted_iff)
    with f show ?thesis by simp
  qed
  show "fst (generateAlternatives acme_store ''acme'' 5 world0) =
       Inr [''acme-2'', ''acme-4'', ''acme-5'']"
    by code_simp
qed

theorem generateAlternatives_filters_candidates_witness:
  "list_all (\<lambda>i. \<not> no_rows_signal (taken_store (alternative ''acme'' i))) [1..5]
   \<and> fst (generateAlternatives taken_store ''acme'' 5 world0) = Inr []
   \<and> queries (snd (generateAlternatives taken_store ''acme'' 5 world0)) =
       [''acme-1'', ''acme-2'', ''acme-3'', ''acme-4'', ''acme-5'']"
proof -
  have t: "\<not> no_rows_signal (taken_store k)" for k
    by (simp add: no_rows_signal_def taken_store_def)
  have c: "filter (\<lambda>c. isValid (validateFormat c)) (map (alternative ''acme'') [1..5]) =
      [''acme-1'', ''acme-2'', ''acme-3'', ''acme-4'', ''acme-5'']"
    by code_simp
  note th = generateAlternatives_filters_candidates [of taken_store "''acme''" 5 world0]
  have e: "fst (generateAlternatives taken_store ''acme'' 5 world0) = Inr []"
    using th t by blast
  have q: "queries (snd (generateAlternatives taken_store ''acme'' 5 world0)) =
       [''acme-1'', ''acme-2'', ''acme-3'', ''acme-4'', ''acme-5'']"
    using th unfolding c by (simp add: world0_def)
  show ?thesis
    using e q by (simp add: t list_all_iff)
qed

lemma digits_not_Nil: "digits n \<noteq> []"
  by (subst digits.simps) simp

lemma length_alternative: "length b + 2 \<le> length (alternative b i)"
proof -
  have "toString i \<noteq> []"
    by (simp add: toString_def digits_not_Nil)
  then have "1 \<le> length (toString i)"
    by (cases "toString i") simp_all
  then show ?thesis by (simp add: alternative_def)
qed

lemma validateFormat_long_base:
  assumes "29 \<le> length b"
  shows "validateFormat (alternative b i) =
           \<lparr>isValid = False, message = ''Subdomain must be no more than 30 characters long''\<rparr>"
proof -
  from assms length_alternative [of b i] have "30 < length (alternative b i)" by simp
  then show ?thesis by (simp add: validateFormat_def)
qed

lemma generateAlternatives_loop_long_base:
  assumes "29 \<le> length b"
  shows "generateAlternatives_loop db b count i acc w = (Inr acc, w)"
proof (induction "nat (count + 1 - i)" arbitrary: i)
  case 0
  then have "\<not> i \<le> count" by simp
  then show ?case by (rule generateAlternatives_loop_exit)
next
  case (Suc n)
  then have le: "i \<le> count" by simp
  from Suc have "n = nat (count + 1 - (i + 1))" by simp
  note IH = Suc.hyps(1) [OF this]
  show ?case
    unfolding generateAlternatives_loop_step [OF le]
    by (simp add: IH accepted_iff validateSubdomain_eq validateFormat_long_base [OF assms])
qed

text \<open>
  Claim C10. For every base of length at least 29 and every count of at least 1,
  \<open>generateAlternatives\<close> returns the empty sequence whatever the store holds: every
  candidate has at least 31 characters and is rejected by the rule on lengths above 30,
  before any query to the store (the world is unchanged).
\<close>

theorem generateAlternatives_long_base_empty:
  assumes "29 \<le> length b" and "1 \<le> count"
  shows "generateAlternatives db b count w = (Inr [], w)
         \<and> (\<forall>i. 1 \<le> i \<and> i \<le> count \<longrightarrow>
               31 \<le> length (alternative b i)
               \<and> validateFormat (alternative b i) =
                   \<lparr>isValid = False,
                    message = ''Subdomain must be no more than 30 characters long''\<rparr>)"
proof (intro conjI allI impI)
  show "generateAlternatives db b count w = (Inr [], w)"
    unfolding generateAlternatives_def
    using assms(1) by (rule generateAlternatives_loop_long_base)
next
  fix i
  show "31 \<le> length (alternative b i)"
    using assms(1) length_alternative [of b i] by simp
  show "validateFormat (alternative b i) =
                   \<lparr>isValid = False,
                    message = ''Subdomain must be no more than 30 characters long''\<rparr>"
    using assms(1) by (rule validateFormat_long_base)
qed

theorem generateAlternatives_long_base_empty_witness:
  "29 \<le> length ''a-name-of-twenty-nine-letters''
   \<and> (1::int) \<le> 3
   \<and> generateAlternatives free_store ''a-name-of-twenty-nine-letters'' 3 world0 = (Inr [], world0)
   \<and> validateFormat (alternative ''a-name-of-twenty-nine-letters'' 1) =
       \<lparr>isValid = False, message = ''Subdomain must be no more than 30 characters long''\<rparr>"
proof -
  have l: "29 \<le> length ''a-name-of-twenty-nine-letters''" by simp
  have c: "(1::int) \<le> 3" by simp
  from generateAlternatives_long_base_empty [OF l c, of free_store world0] l
  show ?thesis by simp
qed

end
